theory Spec2Isabelle
  imports Complex_Main
begin

section \<open>Python values\<close>

text \<open>
  The value of \<^verbatim>\<open>json.loads\<close>: \<^verbatim>\<open>None\<close>, booleans, integers, strings, lists and
  dictionaries. A dictionary is an association list read with \<open>map_of\<close>. A finite
  float is kept as its exact value; the non-standard literals \<^verbatim>\<open>NaN\<close> and
  \<^verbatim>\<open>Infinity\<close> are outside this model.
\<close>

datatype json =
    JNull
  | JBool bool
  | JInt int
  | JFloat rat
  | JStr string
  | JList "json list"
  | JObj "(string \<times> json) list"

text \<open>Python truth value testing, as used by \<^verbatim>\<open>if x:\<close> and \<^verbatim>\<open>x or y\<close>.\<close>

fun truthy :: "json \<Rightarrow> bool" where
  "truthy JNull = False"
| "truthy (JBool b) = b"
| "truthy (JInt n) = (n \<noteq> 0)"
| "truthy (JFloat q) = (q \<noteq> 0)"
| "truthy (JStr s) = (s \<noteq> [])"
| "truthy (JList xs) = (xs \<noteq> [])"
| "truthy (JObj kvs) = (kvs \<noteq> [])"

definition py_or :: "json \<Rightarrow> json \<Rightarrow> json" where
  "py_or a b = (if truthy a then a else b)"

text \<open>\<^verbatim>\<open>d.get(k)\<close> and \<^verbatim>\<open>d.get(k, default)\<close>.\<close>

definition dict_get :: "(string \<times> json) list \<Rightarrow> string \<Rightarrow> json" where
  "dict_get d k = (case map_of d k of None \<Rightarrow> JNull | Some v \<Rightarrow> v)"

definition dict_get_default :: "(string \<times> json) list \<Rightarrow> string \<Rightarrow> json \<Rightarrow> json" where
  "dict_get_default d k dflt = (case map_of d k of None \<Rightarrow> dflt | Some v \<Rightarrow> v)"

text \<open>The exceptions the message callback can meet.\<close>

datatype exn =
    JSONDecodeError
  | UnicodeDecodeError
  | AttributeError
  | ValueError
  | TypeError
  | RecursionError
  | StopIteration

text \<open>
  Hashing a value for use inside a dictionary key. Lists and dictionaries are
  unhashable; \<^verbatim>\<open>True\<close>, \<^verbatim>\<open>1\<close> and \<^verbatim>\<open>1.0\<close> (and \<^verbatim>\<open>False\<close>, \<^verbatim>\<open>0\<close> and \<^verbatim>\<open>0.0\<close>)
  are the same key, as is every float with an integral value and that integer.
\<close>

datatype hkey = HNone | HInt int | HFloat rat | HStr string

fun py_hashable :: "json \<Rightarrow> exn + hkey" where
  "py_hashable JNull = Inr HNone"
| "py_hashable (JBool b) = Inr (HInt (if b then 1 else 0))"
| "py_hashable (JInt n) = Inr (HInt n)"
| "py_hashable (JFloat q) = Inr (if of_int \<lfloor>q\<rfloor> = q then HInt \<lfloor>q\<rfloor> else HFloat q)"
| "py_hashable (JStr s) = Inr (HStr s)"
| "py_hashable (JList xs) = Inl TypeError"
| "py_hashable (JObj kvs) = Inl TypeError"

type_synonym dedup_key = "hkey \<times> string"

text \<open>\<^verbatim>\<open>timestamp.replace('Z', '+00:00')\<close>\<close>

definition replace_Z :: "string \<Rightarrow> string" where
  "replace_Z t = concat (map (\<lambda>c. if c = CHR ''Z'' then ''+00:00'' else [c]) t)"

section \<open>Library functions and the environment of one delivery\<close>

text \<open>
  The library calls of the callback are parameters: decoding the payload bytes,
  \<^verbatim>\<open>json.loads\<close>, \<^verbatim>\<open>datetime.fromisoformat\<close> and \<^verbatim>\<open>str\<close> of a datetime. \<open>None\<close> is
  the call raising its one exception; \<^verbatim>\<open>json.loads\<close> says which exception it raises
  (\<^verbatim>\<open>JSONDecodeError\<close> for malformed text, and also \<^verbatim>\<open>ValueError\<close> or
  \<^verbatim>\<open>RecursionError\<close> on texts it gives up on).
\<close>

record 'dt pylib =
  decode_utf8 :: "string \<Rightarrow> string option"
  json_loads :: "string \<Rightarrow> exn + json"
  fromisoformat :: "string \<Rightarrow> 'dt option"
  dt_str :: "'dt \<Rightarrow> string"

record mqtt_message =
  topic :: string
  payload :: string

text \<open>
  What the outside world decides during one delivery: the clock read by
  \<^verbatim>\<open>datetime.utcnow()\<close>, whether the insert on the storage connection raises, and
  whether a reconnect to the storage then succeeds.
\<close>

record 'dt env =
  utcnow :: 'dt
  execute_raises :: bool
  reconnect_ok :: bool

section \<open>State of the ingestion pipeline\<close>

datatype 'dt pyval = Datetime 'dt | Json json

type_synonym 'dt reading = "(string \<times> 'dt pyval) list"

datatype event =
    LogStats int int int
  | LogInvalidJson
  | LogProcessingError exn
  | LogInsertError
  | TimescaleConnect bool

text \<open>
  \<open>seen_messages\<close> is the insertion-ordered dictionary of the source, kept as the
  list of its keys, oldest first. \<open>submitted\<close> records the argument of every call
  of \<^verbatim>\<open>insert_sensor_reading\<close>. \<open>sensor_readings\<close> is the table of the storage:
  the rows whose insert did not raise. \<open>events\<close> collects the log lines and the
  attempts to connect to the storage.
\<close>

record 'dt pipeline =
  messages_received :: int
  messages_written :: int
  errors :: int
  seen_messages :: "dedup_key list"
  submitted :: "'dt reading list"
  sensor_readings :: "'dt reading list"
  events :: "event list"

definition initial_pipeline :: "'dt pipeline" where
  "initial_pipeline =
     \<lparr>messages_received = 0, messages_written = 0, errors = 0,
      seen_messages = [], submitted = [], sensor_readings = [], events = []\<rparr>"

section \<open>The message callback\<close>

definition connect_timescale_db :: "'dt env \<Rightarrow> 'dt pipeline \<Rightarrow> 'dt pipeline" where
  "connect_timescale_db w s = s\<lparr>events := events s @ [TimescaleConnect (reconnect_ok w)]\<rparr>"

text \<open>
  \<^verbatim>\<open>insert_sensor_reading\<close>: the insert either adds the row, or raises inside the
  function's own \<^verbatim>\<open>try\<close>, which logs, reconnects and returns normally.
\<close>

definition insert_sensor_reading :: "'dt env \<Rightarrow> 'dt reading \<Rightarrow> 'dt pipeline \<Rightarrow> 'dt pipeline" where
  "insert_sensor_reading w data s0 =
     (let s = s0\<lparr>submitted := submitted s0 @ [data]\<rparr> in
      if execute_raises w
      then connect_timescale_db w (s\<lparr>events := events s @ [LogInsertError]\<rparr>)
      else s\<lparr>sensor_readings := sensor_readings s @ [data]\<rparr>)"

text \<open>Lines 211 to 223: payload, event time, canonical name and dedup key.\<close>

definition parse_payload :: "'dt pylib \<Rightarrow> string \<Rightarrow> exn + (string \<times> json) list" where
  "parse_payload lib bytes =
     (case decode_utf8 lib bytes of
        None \<Rightarrow> Inl UnicodeDecodeError
      | Some txt \<Rightarrow>
          (case json_loads lib txt of
             Inl e \<Rightarrow> Inl e
           | Inr (JObj d) \<Rightarrow> Inr d
           | Inr _ \<Rightarrow> Inl AttributeError))"

definition event_time :: "'dt pylib \<Rightarrow> 'dt env \<Rightarrow> json \<Rightarrow> exn + 'dt" where
  "event_time lib w timestamp =
     (if truthy timestamp
      then (case timestamp of
              JStr t \<Rightarrow>
                (case fromisoformat lib (replace_Z t) of
                   None \<Rightarrow> Inl ValueError
                 | Some dt \<Rightarrow> Inr dt)
            | _ \<Rightarrow> Inl AttributeError)
      else Inr (utcnow w))"

definition timestamp_second :: "'dt pylib \<Rightarrow> json \<Rightarrow> 'dt \<Rightarrow> string" where
  "timestamp_second lib timestamp dt =
     (case timestamp of
        JStr t \<Rightarrow> if t \<noteq> [] \<and> 19 \<le> length t then take 19 t else take 19 (dt_str lib dt)
      | _ \<Rightarrow> take 19 (dt_str lib dt))"

definition canonical_name :: "(string \<times> json) list \<Rightarrow> json" where
  "canonical_name d = py_or (dict_get d ''haystackName'') (dict_get d ''haystack_name'')"

definition derive ::
  "'dt pylib \<Rightarrow> 'dt env \<Rightarrow> mqtt_message \<Rightarrow> exn + ((string \<times> json) list \<times> 'dt \<times> dedup_key)" where
  "derive lib w msg =
     (case parse_payload lib (payload msg) of
        Inl e \<Rightarrow> Inl e
      | Inr d \<Rightarrow>
          (let timestamp = dict_get d ''timestamp'' in
           case event_time lib w timestamp of
             Inl e \<Rightarrow> Inl e
           | Inr dt \<Rightarrow>
               (case py_hashable (canonical_name d) of
                  Inl e \<Rightarrow> Inl e
                | Inr h \<Rightarrow> Inr (d, dt, (h, timestamp_second lib timestamp dt)))))"

text \<open>
  Lines 229 and 230: \<^verbatim>\<open>seen_messages.pop(next(iter(seen_messages)), None)\<close>, so many
  times. \<^verbatim>\<open>next\<close> on an empty dictionary raises.
\<close>

fun pop_oldest :: "nat \<Rightarrow> dedup_key list \<Rightarrow> exn + dedup_key list" where
  "pop_oldest 0 ks = Inr ks"
| "pop_oldest (Suc n) [] = Inl StopIteration"
| "pop_oldest (Suc n) (k # ks) = pop_oldest n ks"

text \<open>Lines 233 to 252.\<close>

definition reading_data :: "'dt \<Rightarrow> (string \<times> json) list \<Rightarrow> 'dt reading" where
  "reading_data dt d =
     [(''time'', Datetime dt),
      (''site_id'', Json (dict_get d ''siteId'')),
      (''equipment_type'', Json (dict_get d ''equipmentType'')),
      (''equipment_id'', Json (dict_get d ''equipmentId'')),
      (''device_id'', Json (dict_get_default d ''deviceId'' (JInt 0))),
      (''device_name'', Json (dict_get d ''deviceName'')),
      (''device_ip'', Json (dict_get d ''deviceIp'')),
      (''object_type'', Json (dict_get_default d ''objectType'' (JStr ''unknown''))),
      (''object_instance'', Json (dict_get_default d ''objectInstance'' (JInt 0))),
      (''point_id'', Json (dict_get d ''pointId'')),
      (''point_name'', Json (dict_get d ''pointName'')),
      (''haystack_name'', Json (canonical_name d)),
      (''dis'', Json (dict_get d ''dis'')),
      (''value'', Json (dict_get d ''value'')),
      (''units'', Json (dict_get d ''units'')),
      (''quality'', Json (dict_get_default d ''quality'' (JStr ''good''))),
      (''poll_duration'', Json (dict_get d ''pollDuration'')),
      (''poll_cycle'', Json (dict_get d ''pollCycle''))]"

text \<open>
  The body of the \<^verbatim>\<open>try\<close> after the counter of received messages has been
  incremented. \<open>Inl\<close> is an exception together with the state at the raise.
\<close>

definition process ::
  "'dt pylib \<Rightarrow> 'dt env \<Rightarrow> mqtt_message \<Rightarrow> 'dt pipeline \<Rightarrow> (exn \<times> 'dt pipeline) + 'dt pipeline" where
  "process lib w msg s =
     (case derive lib w msg of
        Inl e \<Rightarrow> Inl (e, s)
      | Inr (d, dt, key) \<Rightarrow>
          if key \<in> set (seen_messages s) then Inr s
          else
            (let ks = seen_messages s @ [key] in
             case (if 1000 < length ks then pop_oldest 100 ks else Inr ks) of
               Inl e \<Rightarrow> Inl (e, s\<lparr>seen_messages := []\<rparr>)
             | Inr ks' \<Rightarrow>
                 (let s1 = insert_sensor_reading w (reading_data dt d) (s\<lparr>seen_messages := ks'\<rparr>);
                      s2 = s1\<lparr>messages_written := messages_written s1 + 1\<rparr>
                  in Inr (if messages_received s2 mod 10 = 0
                          then s2\<lparr>events := events s2 @
                                 [LogStats (messages_received s2) (messages_written s2) (errors s2)]\<rparr>
                          else s2))))"

definition on_message :: "'dt pylib \<Rightarrow> 'dt env \<Rightarrow> mqtt_message \<Rightarrow> 'dt pipeline \<Rightarrow> 'dt pipeline" where
  "on_message lib w msg s0 =
     (let s = s0\<lparr>messages_received := messages_received s0 + 1\<rparr> in
      case process lib w msg s of
        Inr s' \<Rightarrow> s'
      | Inl (e, s') \<Rightarrow>
          s'\<lparr>errors := errors s' + 1,
             events := events s' @
               [if e = JSONDecodeError then LogInvalidJson else LogProcessingError e]\<rparr>)"

text \<open>A run of the callback over a sequence of deliveries, in arrival order.\<close>

fun run :: "'dt pylib \<Rightarrow> ('dt env \<times> mqtt_message) list \<Rightarrow> 'dt pipeline \<Rightarrow> 'dt pipeline" where
  "run lib [] s = s"
| "run lib ((w, msg) # rest) s = run lib rest (on_message lib w msg s)"

section \<open>Broker configuration\<close>

record broker_config =
  broker :: string
  port :: int
  client_id :: string
  username :: string
  password :: string
  tls_enabled :: bool
  tls_insecure :: bool
  ca_cert_path :: "string option"
  topic_patterns :: "string list"
  qos :: int
  enabled :: bool

text \<open>The module-level value of \<^verbatim>\<open>mqtt_config\<close> (lines 40 to 52).\<close>

definition initial_mqtt_config :: broker_config where
  "initial_mqtt_config =
     \<lparr>broker = [], port = 1883, client_id = ''storage_telegraf'', username = [],
      password = [], tls_enabled = False, tls_insecure = False, ca_cert_path = None,
      topic_patterns = [''bacnet/#''], qos = 1, enabled = False\<rparr>"

text \<open>
  Modelled from the spec: the column types of the table \<^verbatim>\<open>MqttConfig\<close>, whose
  declaration is not among the sources. Section 6 of the specification gives them:
  strings, integers, booleans and a sequence of strings, each of them nullable.
  The fields follow the order of the \<^verbatim>\<open>SELECT\<close>, \<^verbatim>\<open>result[0]\<close> to \<^verbatim>\<open>result[10]\<close>.
\<close>

record config_row =
  col_broker :: "string option"
  col_port :: "int option"
  col_clientId :: "string option"
  col_username :: "string option"
  col_password :: "string option"
  col_tlsEnabled :: "bool option"
  col_tlsInsecure :: "bool option"
  col_caCertPath :: "string option"
  col_topicPatterns :: "string list option"
  col_qos :: "int option"
  col_enabled :: "bool option"

text \<open>
  \<^verbatim>\<open>x or default\<close> on a nullable column: the default replaces \<^verbatim>\<open>None\<close> and every
  other value that Python takes for false.
\<close>

definition or_default :: "('a \<Rightarrow> bool) \<Rightarrow> 'a option \<Rightarrow> 'a \<Rightarrow> 'a" where
  "or_default truth v dflt =
     (case v of None \<Rightarrow> dflt | Some x \<Rightarrow> if truth x then x else dflt)"

definition str_truth :: "string \<Rightarrow> bool" where
  "str_truth s = (s \<noteq> [])"

definition int_truth :: "int \<Rightarrow> bool" where
  "int_truth n = (n \<noteq> 0)"

definition bool_truth :: "bool \<Rightarrow> bool" where
  "bool_truth b = b"

definition list_truth :: "'a list \<Rightarrow> bool" where
  "list_truth xs = (xs \<noteq> [])"

text \<open>Lines 110 to 120.\<close>

definition config_of_row :: "config_row \<Rightarrow> broker_config" where
  "config_of_row r =
     \<lparr>broker = or_default str_truth (col_broker r) [],
      port = or_default int_truth (col_port r) 1883,
      client_id = or_default str_truth (col_clientId r) ''storage_telegraf'',
      username = or_default str_truth (col_username r) [],
      password = or_default str_truth (col_password r) [],
      tls_enabled = or_default bool_truth (col_tlsEnabled r) False,
      tls_insecure = or_default bool_truth (col_tlsInsecure r) False,
      ca_cert_path = col_caCertPath r,
      topic_patterns = or_default list_truth (col_topicPatterns r) [''bacnet/#''],
      qos = or_default int_truth (col_qos r) 1,
      enabled = (case col_enabled r of Some b \<Rightarrow> b | None \<Rightarrow> True)\<rparr>"

section \<open>State of the connection manager\<close>

datatype level = INFO | WARNING | ERROR

datatype callback = OnConnect int | OnDisconnect int

datatype tls_setup = CertNone | CaFile string | SystemCa

text \<open>The client object held in \<^verbatim>\<open>mqtt_client\<close>, as configured so far.\<close>

record client =
  cl_client_id :: string
  cl_credentials :: "(string \<times> string) option"
  cl_tls :: "tls_setup option"
  cl_tls_insecure :: bool

text \<open>
  What leaves the process: log lines, status written to the configuration
  database, and calls on the transport.
\<close>

datatype action =
    Log level string
  | UpdateStatus string bool
  | NewClient string
  | Connect string int int
  | LoopStart
  | Disconnect
  | LoopStop
  | Subscribe string int
  | Sleep nat

datatype query_result = QueryRaises | NoRow | Row config_row

text \<open>
  What the outside world decides while the connection manager runs: the answer of
  the configuration database, the file system, which transport calls raise, and
  which callbacks the transport thread delivers during the wait after a connect
  (\<open>wait_callbacks\<close>) and between a disconnect and the return of the loop stop
  (\<open>teardown_callbacks\<close>).
\<close>

record conn_env =
  query :: query_result
  status_update_raises :: bool
  path_exists :: "string \<Rightarrow> bool"
  path_readable :: "string \<Rightarrow> bool"
  tls_set_raises :: bool
  connect_raises :: bool
  wait_callbacks :: "callback list"
  teardown_callbacks :: "callback list"

record conn =
  mqtt_config :: broker_config
  mqtt_client :: "client option"
  mqtt_connected :: bool
  last_config_check :: int
  actions :: "action list"

definition initial_conn :: conn where
  "initial_conn =
     \<lparr>mqtt_config = initial_mqtt_config, mqtt_client = None, mqtt_connected = False,
      last_config_check = 0, actions = []\<rparr>"

definition emit :: "action \<Rightarrow> conn \<Rightarrow> conn" where
  "emit a s = s\<lparr>actions := actions s @ [a]\<rparr>"

definition upd_client :: "(client \<Rightarrow> client) \<Rightarrow> conn \<Rightarrow> conn" where
  "upd_client f s = s\<lparr>mqtt_client := map_option f (mqtt_client s)\<rparr>"

text \<open>The actions emitted between two states of one execution.\<close>

definition emitted :: "conn \<Rightarrow> conn \<Rightarrow> action list" where
  "emitted s s' = drop (length (actions s)) (actions s')"

section \<open>Loading the configuration and recording the status\<close>

definition load_mqtt_config :: "conn_env \<Rightarrow> conn \<Rightarrow> bool \<times> conn" where
  "load_mqtt_config e s =
     (case query e of
        QueryRaises \<Rightarrow> (False, emit (Log ERROR ''Failed to load MQTT config'') s)
      | NoRow \<Rightarrow> (False, emit (Log WARNING ''No MQTT config found in database'') s)
      | Row r \<Rightarrow>
          (True,
           emit (Log INFO ''  Topics'')
             (emit (Log INFO ''  TLS, Auth'')
               (emit (Log INFO ''Loaded MQTT config'')
                 (s\<lparr>mqtt_config := config_of_row r\<rparr>)))))"

definition update_connection_status :: "conn_env \<Rightarrow> string \<Rightarrow> bool \<Rightarrow> conn \<Rightarrow> conn" where
  "update_connection_status e status last_connected s =
     (if status_update_raises e
      then emit (Log ERROR ''Failed to update connection status'') s
      else emit (UpdateStatus status last_connected) s)"

section \<open>Session callbacks\<close>

fun subscribe_all :: "string list \<Rightarrow> int \<Rightarrow> conn \<Rightarrow> conn" where
  "subscribe_all [] q s = s"
| "subscribe_all (pattern # rest) q s =
     subscribe_all rest q (emit (Log INFO ''Subscribed to'') (emit (Subscribe pattern q) s))"

definition on_connect :: "conn_env \<Rightarrow> int \<Rightarrow> conn \<Rightarrow> conn" where
  "on_connect e reason_code s =
     (if reason_code = 0
      then
        (let s1 = emit (Log INFO ''Connected to MQTT broker'') (s\<lparr>mqtt_connected := True\<rparr>);
             s2 = update_connection_status e ''connected'' True s1
         in subscribe_all (topic_patterns (mqtt_config s2)) (qos (mqtt_config s2)) s2)
      else
        update_connection_status e ''error'' False
          (emit (Log ERROR ''Failed to connect to MQTT broker, code'')
             (s\<lparr>mqtt_connected := False\<rparr>)))"

definition on_disconnect :: "conn_env \<Rightarrow> int \<Rightarrow> conn \<Rightarrow> conn" where
  "on_disconnect e reason_code s =
     (let s1 = s\<lparr>mqtt_connected := False\<rparr>;
          s2 = (if reason_code \<noteq> 0
                then emit (Log WARNING ''Unexpected disconnect from MQTT broker, code'') s1
                else s1)
      in update_connection_status e ''disconnected'' False s2)"

text \<open>
  The transport thread runs its callbacks while the main thread sleeps or waits for
  the loop to stop; they are applied in order at that point.
\<close>

fun deliver :: "conn_env \<Rightarrow> callback list \<Rightarrow> conn \<Rightarrow> conn" where
  "deliver e [] s = s"
| "deliver e (OnConnect rc # rest) s = deliver e rest (on_connect e rc s)"
| "deliver e (OnDisconnect rc # rest) s = deliver e rest (on_disconnect e rc s)"

section \<open>Connecting\<close>

definition path_truth :: "string option \<Rightarrow> bool" where
  "path_truth p = (case p of None \<Rightarrow> False | Some f \<Rightarrow> f \<noteq> [])"

text \<open>Lines 336 to 364; \<open>Inl\<close> is \<^verbatim>\<open>tls_set\<close> raising, with the state at the raise.\<close>

definition configure_tls :: "conn_env \<Rightarrow> conn \<Rightarrow> conn + conn" where
  "configure_tls e s =
     (let ca_cert = ca_cert_path (mqtt_config s) in
      if tls_insecure (mqtt_config s)
      then
        (if tls_set_raises e then Inl s
         else Inr (emit (Log WARNING ''TLS configured with INSECURE mode (certificate verification disabled)'')
                (upd_client (\<lambda>c. c\<lparr>cl_tls := Some CertNone, cl_tls_insecure := True\<rparr>) s)))
      else
        (let (ca_cert1, s1) =
               (if path_truth ca_cert
                then (if \<not> path_exists e (the ca_cert)
                      then (None, emit (Log ERROR ''CA certificate file not found'') s)
                      else if \<not> path_readable e (the ca_cert)
                      then (None, emit (Log ERROR ''CA certificate file not readable'') s)
                      else (ca_cert, s))
                else (ca_cert, s))
         in if path_truth ca_cert1
            then (if tls_set_raises e then Inl s1
                  else Inr (emit (Log INFO ''TLS configured with CA certificate'')
                         (upd_client (\<lambda>c. c\<lparr>cl_tls := Some (CaFile (the ca_cert1))\<rparr>) s1)))
            else (if tls_set_raises e then Inl s1
                  else Inr (emit (Log INFO ''TLS configured with system CA bundle'')
                         (upd_client (\<lambda>c. c\<lparr>cl_tls := Some SystemCa\<rparr>) s1)))))"

text \<open>Lines 316 to 373, the body of the \<^verbatim>\<open>try\<close>.\<close>

definition connect_body :: "conn_env \<Rightarrow> conn \<Rightarrow> conn + (bool \<times> conn)" where
  "connect_body e s =
     (let cfg = mqtt_config s;
          s1 = emit (NewClient (client_id cfg))
                 (s\<lparr>mqtt_client := Some \<lparr>cl_client_id = client_id cfg, cl_credentials = None,
                                          cl_tls = None, cl_tls_insecure = False\<rparr>\<rparr>);
          s2 = (if username cfg \<noteq> []
                then emit (Log INFO ''MQTT authentication configured for user'')
                       (upd_client (\<lambda>c. c\<lparr>cl_credentials := Some (username cfg, password cfg)\<rparr>) s1)
                else s1)
      in case (if tls_enabled cfg then configure_tls e s2 else Inr s2) of
           Inl s' \<Rightarrow> Inl s'
         | Inr s3 \<Rightarrow>
             (let s4 = update_connection_status e ''connecting'' False s3 in
              if connect_raises e then Inl s4
              else
                (let s5 = emit LoopStart (emit (Connect (broker cfg) (port cfg) 60) s4);
                     s6 = deliver e (wait_callbacks e) (emit (Sleep 2) s5)
                 in Inr (mqtt_connected s6, s6))))"

definition connect_mqtt :: "conn_env \<Rightarrow> conn \<Rightarrow> bool \<times> conn" where
  "connect_mqtt e s =
     (if broker (mqtt_config s) = []
      then (False, emit (Log WARNING ''MQTT broker not configured, waiting...'') s)
      else if \<not> enabled (mqtt_config s)
      then (False, emit (Log INFO ''MQTT is disabled in configuration'') s)
      else
        (case connect_body e s of
           Inr (r, s') \<Rightarrow> (r, s')
         | Inl s' \<Rightarrow>
             (False,
              update_connection_status e ''error'' False
                (emit (Log ERROR ''Failed to connect to MQTT broker'') s'))))"

section \<open>The reconciliation loop\<close>




section \<open>Sample inputs\<close>

text \<open>
  Concrete payloads, a library instance that answers on them, and environments,
  used to evaluate the callback and the connection manager. A datetime of the sample
  library is its ISO text.
\<close>

definition payload_a :: string where
  "payload_a = ''{\"haystackName\": \"ahu1.temp\", \"timestamp\": \"2024-05-01T10:00:00Z\", \"value\": 21}''"

definition payload_b :: string where
  "payload_b = ''{\"haystackName\": \"ahu1.temp\", \"timestamp\": \"2024-05-01T10:00:00.500Z\", \"value\": 22}''"

definition payload_c :: string where
  "payload_c = ''{\"timestamp\": \"2024-05-01T10:00:00Z\", \"deviceId\": 7}''"

definition payload_d :: string where
  "payload_d = ''{\"timestamp\": \"2024-05-01T10:00:00.250Z\", \"objectType\": \"analog-input\"}''"

definition payload_bad :: string where
  "payload_bad = ''{not json''"

definition dict_a :: "(string \<times> json) list" where
  "dict_a = [(''haystackName'', JStr ''ahu1.temp''),
             (''timestamp'', JStr ''2024-05-01T10:00:00Z''), (''value'', JInt 21)]"

definition dict_b :: "(string \<times> json) list" where
  "dict_b = [(''haystackName'', JStr ''ahu1.temp''),
             (''timestamp'', JStr ''2024-05-01T10:00:00.500Z''), (''value'', JInt 22)]"

definition dict_c :: "(string \<times> json) list" where
  "dict_c = [(''timestamp'', JStr ''2024-05-01T10:00:00Z''), (''deviceId'', JInt 7)]"

definition dict_d :: "(string \<times> json) list" where
  "dict_d = [(''timestamp'', JStr ''2024-05-01T10:00:00.250Z''),
             (''objectType'', JStr ''analog-input'')]"

definition sample_documents :: "(string \<times> json) list" where
  "sample_documents = [(payload_a, JObj dict_a), (payload_b, JObj dict_b),
                       (payload_c, JObj dict_c), (payload_d, JObj dict_d)]"

definition sample_lib :: "string pylib" where
  "sample_lib =
     \<lparr>decode_utf8 = Some,
      json_loads = (\<lambda>txt. case map_of sample_documents txt of
                            None \<Rightarrow> Inl JSONDecodeError | Some j \<Rightarrow> Inr j),
      fromisoformat = (\<lambda>t. if 19 \<le> length t then Some t else None),
      dt_str = (\<lambda>dt. dt)\<rparr>"

definition msg_a :: mqtt_message where
  "msg_a = \<lparr>topic = ''bacnet/ahu1'', payload = payload_a\<rparr>"

definition msg_b :: mqtt_message where
  "msg_b = \<lparr>topic = ''bacnet/ahu1'', payload = payload_b\<rparr>"

definition msg_c :: mqtt_message where
  "msg_c = \<lparr>topic = ''bacnet/x'', payload = payload_c\<rparr>"

definition msg_d :: mqtt_message where
  "msg_d = \<lparr>topic = ''bacnet/y'', payload = payload_d\<rparr>"

definition msg_bad :: mqtt_message where
  "msg_bad = \<lparr>topic = ''bacnet/ahu1'', payload = payload_bad\<rparr>"

definition storage_up :: "string env" where
  "storage_up = \<lparr>utcnow = ''2024-05-01 10:00:05.000000'', execute_raises = False, reconnect_ok = True\<rparr>"

definition storage_down :: "string env" where
  "storage_down = \<lparr>utcnow = ''2024-05-01 10:00:05.000000'', execute_raises = True, reconnect_ok = True\<rparr>"

definition key_a :: dedup_key where
  "key_a = (HStr ''ahu1.temp'', ''2024-05-01T10:00:00'')"

definition key_none :: dedup_key where
  "key_none = (HNone, ''2024-05-01T10:00:00'')"

text \<open>
  A second library instance, whose datetimes are instants: seconds since the epoch.
  It reads two renderings of one instant, 10:00:00 UTC on 1 May 2024, once with the
  offset \<^verbatim>\<open>+00:00\<close> and once with \<^verbatim>\<open>+02:00\<close>.
\<close>

definition payload_e :: string where
  "payload_e = ''{\"haystackName\": \"ahu1.temp\", \"timestamp\": \"2024-05-01T10:00:00+00:00\", \"value\": 21.5}''"

definition payload_f :: string where
  "payload_f = ''{\"haystackName\": \"ahu1.temp\", \"timestamp\": \"2024-05-01T12:00:00+02:00\", \"value\": 21.5}''"

definition payload_g :: string where
  "payload_g = ''{\"timestamp\": \"2024-05-01T10:00:00+00:00\"}''"

definition payload_h :: string where
  "payload_h = ''{\"timestamp\": \"2024-05-01T12:00:00+02:00\"}''"

definition dict_e :: "(string \<times> json) list" where
  "dict_e = [(''haystackName'', JStr ''ahu1.temp''),
             (''timestamp'', JStr ''2024-05-01T10:00:00+00:00''), (''value'', JFloat (43 / 2))]"

definition dict_f :: "(string \<times> json) list" where
  "dict_f = [(''haystackName'', JStr ''ahu1.temp''),
             (''timestamp'', JStr ''2024-05-01T12:00:00+02:00''), (''value'', JFloat (43 / 2))]"

definition dict_g :: "(string \<times> json) list" where
  "dict_g = [(''timestamp'', JStr ''2024-05-01T10:00:00+00:00'')]"

definition dict_h :: "(string \<times> json) list" where
  "dict_h = [(''timestamp'', JStr ''2024-05-01T12:00:00+02:00'')]"

definition instant_documents :: "(string \<times> json) list" where
  "instant_documents = [(payload_e, JObj dict_e), (payload_f, JObj dict_f),
                        (payload_g, JObj dict_g), (payload_h, JObj dict_h)]"

definition instant_lib :: "int pylib" where
  "instant_lib =
     \<lparr>decode_utf8 = Some,
      json_loads = (\<lambda>txt. case map_of instant_documents txt of
                            None \<Rightarrow> Inl JSONDecodeError | Some j \<Rightarrow> Inr j),
      fromisoformat = map_of [(''2024-05-01T10:00:00+00:00'', 1714557600),
                              (''2024-05-01T12:00:00+02:00'', 1714557600)],
      dt_str = (\<lambda>t. if t = 1714557600 then ''2024-05-01 10:00:00+00:00''
                     else ''1970-01-01 00:00:00+00:00'')\<rparr>"

definition msg_e :: mqtt_message where
  "msg_e = \<lparr>topic = ''bacnet/ahu1'', payload = payload_e\<rparr>"

definition msg_f :: mqtt_message where
  "msg_f = \<lparr>topic = ''bacnet/ahu1'', payload = payload_f\<rparr>"

definition msg_g :: mqtt_message where
  "msg_g = \<lparr>topic = ''bacnet/x'', payload = payload_g\<rparr>"

definition msg_h :: mqtt_message where
  "msg_h = \<lparr>topic = ''bacnet/y'', payload = payload_h\<rparr>"

definition clock_up :: "int env" where
  "clock_up = \<lparr>utcnow = 1714557605, execute_raises = False, reconnect_ok = True\<rparr>"

text \<open>A cache holding 1000 keys, the oldest first.\<close>

definition numbered_key :: "nat \<Rightarrow> dedup_key" where
  "numbered_key i = (HInt (int i), ''2024-05-01T09:00:00'')"

definition full_cache :: "dedup_key list" where
  "full_cache = map numbered_key [0..<1000]"

definition full_pipeline :: "string pipeline" where
  "full_pipeline =
     \<lparr>messages_received = 1000, messages_written = 1000, errors = 0,
      seen_messages = full_cache, submitted = [], sensor_readings = [], events = []\<rparr>"

text \<open>A pipeline that has received nine messages, one of them with the key of \<open>msg_a\<close>.\<close>

definition nine_received :: "string pipeline" where
  "nine_received =
     \<lparr>messages_received = 9, messages_written = 9, errors = 0,
      seen_messages = [key_a], submitted = [], sensor_readings = [], events = []\<rparr>"

text \<open>Rows of the configuration table.\<close>

definition row_broker1 :: config_row where
  "row_broker1 =
     \<lparr>col_broker = Some ''broker1'', col_port = Some 1883,
      col_clientId = Some ''storage_telegraf'', col_username = None, col_password = None,
      col_tlsEnabled = Some False, col_tlsInsecure = Some False, col_caCertPath = None,
      col_topicPatterns = Some [''bacnet/#''], col_qos = Some 1, col_enabled = Some True\<rparr>"



definition row_qos0 :: config_row where
  "row_qos0 = row_broker1\<lparr>col_qos := Some 0\<rparr>"


text \<open>
  An environment in which nothing raises, the broker accepts within the wait and
  the session closes cleanly on teardown.
\<close>

definition calm :: "query_result \<Rightarrow> conn_env" where
  "calm q =
     \<lparr>query = q, status_update_raises = False, path_exists = (\<lambda>f. True),
      path_readable = (\<lambda>f. True), tls_set_raises = False, connect_raises = False,
      wait_callbacks = [OnConnect 0], teardown_callbacks = [OnDisconnect 0]\<rparr>"



section \<open>Reading the trace of actions\<close>

text \<open>The log lines and reconnects added by one call of the message callback.\<close>

definition logged :: "'dt pipeline \<Rightarrow> 'dt pipeline \<Rightarrow> event list" where
  "logged s s' = drop (length (events s)) (events s')"

fun is_log :: "action \<Rightarrow> bool" where
  "is_log (Log l t) = True"
| "is_log a = False"



section \<open>The callback, case by case\<close>

lemma pop_oldest_drop: "n \<le> length ks \<Longrightarrow> pop_oldest n ks = Inr (drop n ks)"
  by (induction n ks rule: pop_oldest.induct) auto

text \<open>A message whose key is in the cache only counts as received.\<close>

lemma on_message_duplicate:
  "derive lib w msg = Inr (d, dt, key) \<Longrightarrow> key \<in> set (seen_messages s) \<Longrightarrow>
   on_message lib w msg s = s\<lparr>messages_received := messages_received s + 1\<rparr>"
  by (simp add: on_message_def process_def Let_def)

text \<open>A message that raises before the cache is read counts as received and as an error.\<close>

lemma on_message_raises:
  "derive lib w msg = Inl e \<Longrightarrow>
   on_message lib w msg s =
     s\<lparr>messages_received := messages_received s + 1, errors := errors s + 1,
       events := events s @ [if e = JSONDecodeError then LogInvalidJson else LogProcessingError e]\<rparr>"
  by (simp add: on_message_def process_def Let_def)

text \<open>A message whose key is new goes through the whole body.\<close>

lemma on_message_fresh:
  assumes "derive lib w msg = Inr (d, dt, key)" and "key \<notin> set (seen_messages s)"
  shows "on_message lib w msg s =
     (let s1 = insert_sensor_reading w (reading_data dt d)
                 (s\<lparr>messages_received := messages_received s + 1,
                    seen_messages :=
                      (if 1000 < length (seen_messages s @ [key])
                       then drop 100 (seen_messages s @ [key])
                       else seen_messages s @ [key])\<rparr>);
          s2 = s1\<lparr>messages_written := messages_written s1 + 1\<rparr>
      in if messages_received s2 mod 10 = 0
         then s2\<lparr>events := events s2 @
                [LogStats (messages_received s2) (messages_written s2) (errors s2)]\<rparr>
         else s2)"
  using assms
  by (simp add: on_message_def process_def Let_def pop_oldest_drop)

lemma fresh_received:
  "derive lib w msg = Inr (d, dt, key) \<Longrightarrow> key \<notin> set (seen_messages s) \<Longrightarrow>
   messages_received (on_message lib w msg s) = messages_received s + 1"
  by (simp add: on_message_fresh Let_def insert_sensor_reading_def connect_timescale_db_def)

lemma fresh_written:
  "derive lib w msg = Inr (d, dt, key) \<Longrightarrow> key \<notin> set (seen_messages s) \<Longrightarrow>
   messages_written (on_message lib w msg s) = messages_written s + 1"
  by (simp add: on_message_fresh Let_def insert_sensor_reading_def connect_timescale_db_def)

lemma fresh_errors:
  "derive lib w msg = Inr (d, dt, key) \<Longrightarrow> key \<notin> set (seen_messages s) \<Longrightarrow>
   errors (on_message lib w msg s) = errors s"
  by (simp add: on_message_fresh Let_def insert_sensor_reading_def connect_timescale_db_def)

lemma fresh_seen:
  "derive lib w msg = Inr (d, dt, key) \<Longrightarrow> key \<notin> set (seen_messages s) \<Longrightarrow>
   seen_messages (on_message lib w msg s) =
     (if 1000 < length (seen_messages s @ [key])
      then drop 100 (seen_messages s @ [key]) else seen_messages s @ [key])"
  by (simp add: on_message_fresh Let_def insert_sensor_reading_def connect_timescale_db_def)

lemma fresh_rows:
  "derive lib w msg = Inr (d, dt, key) \<Longrightarrow> key \<notin> set (seen_messages s) \<Longrightarrow>
   sensor_readings (on_message lib w msg s) =
     (if execute_raises w then sensor_readings s
      else sensor_readings s @ [reading_data dt d])"
  by (simp add: on_message_fresh Let_def insert_sensor_reading_def connect_timescale_db_def)

lemma fresh_events:
  "derive lib w msg = Inr (d, dt, key) \<Longrightarrow> key \<notin> set (seen_messages s) \<Longrightarrow>
   events (on_message lib w msg s) =
     events s
     @ (if execute_raises w then [LogInsertError, TimescaleConnect (reconnect_ok w)] else [])
     @ (if (messages_received s + 1) mod 10 = 0
        then [LogStats (messages_received s + 1) (messages_written s + 1) (errors s)] else [])"
  by (simp add: on_message_fresh Let_def insert_sensor_reading_def connect_timescale_db_def)

lemma fresh_key_kept:
  "derive lib w msg = Inr (d, dt, key) \<Longrightarrow> key \<notin> set (seen_messages s) \<Longrightarrow>
   key \<in> set (seen_messages (on_message lib w msg s))"
  by (simp add: fresh_seen)

lemma derive_a: "derive sample_lib w msg_a = Inr (dict_a, ''2024-05-01T10:00:00+00:00'', key_a)"
  by (simp add: derive_def parse_payload_def sample_lib_def sample_documents_def msg_a_def payload_a_def payload_b_def
      payload_c_def payload_d_def dict_a_def dict_get_def event_time_def replace_Z_def
      canonical_name_def py_or_def timestamp_second_def key_a_def)

lemma derive_b: "derive sample_lib w msg_b = Inr (dict_b, ''2024-05-01T10:00:00.500+00:00'', key_a)"
  by (simp add: derive_def parse_payload_def sample_lib_def sample_documents_def msg_b_def payload_a_def payload_b_def
      payload_c_def payload_d_def dict_b_def dict_get_def event_time_def replace_Z_def
      canonical_name_def py_or_def timestamp_second_def key_a_def)

lemma derive_bad: "derive sample_lib w msg_bad = Inl JSONDecodeError"
  by (simp add: derive_def parse_payload_def sample_lib_def sample_documents_def msg_bad_def payload_a_def payload_b_def
      payload_c_def payload_d_def payload_bad_def)

lemma fresh_submitted:
  "derive lib w msg = Inr (d, dt, key) \<Longrightarrow> key \<notin> set (seen_messages s) \<Longrightarrow>
   submitted (on_message lib w msg s) = submitted s @ [reading_data dt d]"
  by (simp add: on_message_fresh Let_def insert_sensor_reading_def connect_timescale_db_def)

lemma derive_e:
  "derive instant_lib w msg_e = Inr (dict_e, 1714557600, (HStr ''ahu1.temp'', ''2024-05-01T10:00:00''))"
  by (simp add: derive_def parse_payload_def instant_lib_def instant_documents_def msg_e_def
      payload_e_def payload_f_def payload_g_def payload_h_def dict_e_def dict_get_def
      event_time_def replace_Z_def canonical_name_def py_or_def timestamp_second_def)

lemma derive_f:
  "derive instant_lib w msg_f = Inr (dict_f, 1714557600, (HStr ''ahu1.temp'', ''2024-05-01T12:00:00''))"
  by (simp add: derive_def parse_payload_def instant_lib_def instant_documents_def msg_f_def
      payload_e_def payload_f_def payload_g_def payload_h_def dict_f_def dict_get_def
      event_time_def replace_Z_def canonical_name_def py_or_def timestamp_second_def)

lemma derive_g:
  "derive instant_lib w msg_g = Inr (dict_g, 1714557600, (HNone, ''2024-05-01T10:00:00''))"
  by (simp add: derive_def parse_payload_def instant_lib_def instant_documents_def msg_g_def
      payload_e_def payload_f_def payload_g_def payload_h_def dict_g_def dict_get_def
      event_time_def replace_Z_def canonical_name_def py_or_def timestamp_second_def)

lemma derive_h:
  "derive instant_lib w msg_h = Inr (dict_h, 1714557600, (HNone, ''2024-05-01T12:00:00''))"
  by (simp add: derive_def parse_payload_def instant_lib_def instant_documents_def msg_h_def
      payload_e_def payload_f_def payload_g_def payload_h_def dict_h_def dict_get_def
      event_time_def replace_Z_def canonical_name_def py_or_def timestamp_second_def)

lemma two_fresh_rows:
  assumes "derive lib w1 m1 = Inr (d1, dt1, k1)" and "derive lib w2 m2 = Inr (d2, dt2, k2)"
    and "k1 \<noteq> k2" and "\<not> execute_raises w1" and "\<not> execute_raises w2"
  shows "sensor_readings (run lib [(w1, m1), (w2, m2)] initial_pipeline) =
           [reading_data dt1 d1, reading_data dt2 d2] \<and>
         messages_written (run lib [(w1, m1), (w2, m2)] initial_pipeline) = 2"
proof -
  have f1: "k1 \<notin> set (seen_messages (initial_pipeline :: 'a pipeline))"
    by (simp add: initial_pipeline_def)
  have s1: "seen_messages (on_message lib w1 m1 initial_pipeline) = [k1]"
    using fresh_seen [OF assms(1) f1] by (simp add: initial_pipeline_def)
  have f2: "k2 \<notin> set (seen_messages (on_message lib w1 m1 initial_pipeline))"
    using assms(3) by (simp add: s1)
  have r1: "sensor_readings (on_message lib w1 m1 initial_pipeline) = [reading_data dt1 d1]"
    using fresh_rows [OF assms(1) f1] assms(4) by (simp add: initial_pipeline_def)
  have w1: "messages_written (on_message lib w1 m1 initial_pipeline) = 1"
    using fresh_written [OF assms(1) f1] by (simp add: initial_pipeline_def)
  show ?thesis
    using fresh_rows [OF assms(2) f2] fresh_written [OF assms(2) f2] r1 w1 assms(5)
    by simp
qed

section \<open>Duplicate suppression\<close>

lemma run_duplicates:
  "key \<in> set (seen_messages s) \<Longrightarrow>
   \<forall>(w', m') \<in> set later. \<exists>d' dt'. derive lib w' m' = Inr (d', dt', key) \<Longrightarrow>
   run lib later s = s\<lparr>messages_received := messages_received s + int (length later)\<rparr>"
proof (induction later arbitrary: s)
  case Nil
  then show ?case by simp
next
  case (Cons x later)
  obtain w' m' where x: "x = (w', m')" by (cases x)
  from Cons.prems(2) x obtain d' dt' where der: "derive lib w' m' = Inr (d', dt', key)"
    by auto
  have step: "on_message lib w' m' s = s\<lparr>messages_received := messages_received s + 1\<rparr>"
    using der Cons.prems(1) by (rule on_message_duplicate)
  have "run lib later (s\<lparr>messages_received := messages_received s + 1\<rparr>) =
        (s\<lparr>messages_received := messages_received s + 1\<rparr>)
          \<lparr>messages_received := messages_received (s\<lparr>messages_received := messages_received s + 1\<rparr>)
             + int (length later)\<rparr>"
    using Cons.prems by (intro Cons.IH) auto
  then show ?case using x step by simp
qed

text \<open>
  Claim C2 fails as stated. Two messages carry the same canonical name and the same
  instant, written once with the offset \<^verbatim>\<open>+00:00\<close> and once with \<^verbatim>\<open>+02:00\<close>.
  Both parse to the same event time, so their timestamps fall in the same second, but
  the key is cut from the text of the timestamp and the two texts differ in the hour:
  both messages reach the storage and both are counted as written.
\<close>

theorem same_second_both_written:
  "parse_payload instant_lib (payload msg_e) = Inr dict_e \<and>
   parse_payload instant_lib (payload msg_f) = Inr dict_f \<and>
   canonical_name dict_e = canonical_name dict_f \<and>
   event_time instant_lib clock_up (dict_get dict_e ''timestamp'') = Inr 1714557600 \<and>
   event_time instant_lib clock_up (dict_get dict_f ''timestamp'') = Inr 1714557600 \<and>
   sensor_readings (run instant_lib [(clock_up, msg_e), (clock_up, msg_f)] initial_pipeline) =
     [reading_data 1714557600 dict_e, reading_data 1714557600 dict_f] \<and>
   messages_written (run instant_lib [(clock_up, msg_e), (clock_up, msg_f)] initial_pipeline) = 2"
proof -
  have a: "parse_payload instant_lib (payload msg_e) = Inr dict_e"
    by (simp add: parse_payload_def instant_lib_def instant_documents_def msg_e_def
        payload_e_def payload_f_def payload_g_def payload_h_def)
  have b: "parse_payload instant_lib (payload msg_f) = Inr dict_f"
    by (simp add: parse_payload_def instant_lib_def instant_documents_def msg_f_def
        payload_e_def payload_f_def payload_g_def payload_h_def)
  have c: "canonical_name dict_e = canonical_name dict_f"
    by (simp add: canonical_name_def dict_e_def dict_f_def dict_get_def)
  have d: "event_time instant_lib clock_up (dict_get dict_e ''timestamp'') = Inr 1714557600"
    by (simp add: event_time_def dict_get_def dict_e_def instant_lib_def replace_Z_def)
  have e: "event_time instant_lib clock_up (dict_get dict_f ''timestamp'') = Inr 1714557600"
    by (simp add: event_time_def dict_get_def dict_f_def instant_lib_def replace_Z_def)
  have n: "(HStr ''ahu1.temp'', ''2024-05-01T10:00:00'') \<noteq> (HStr ''ahu1.temp'', ''2024-05-01T12:00:00'')"
    by simp
  have u: "\<not> execute_raises clock_up" by (simp add: clock_up_def)
  show ?thesis
    using a b c d e two_fresh_rows [OF derive_e derive_f n u u] by simp
qed

text \<open>
  Claim C2 as amended. Take a message whose dedup key is not in the cache, followed
  by any sequence of messages that derive the same key: the same hashed canonical name
  and the same 19 characters of timestamp text (the first 19 characters of the
  payload's timestamp string when it has that many, otherwise of \<^verbatim>\<open>str\<close> of the event
  time). The first one reaches the storage insert and is counted as written, and its
  key is in the cache afterwards. Each later one only adds one to
  \<open>messages_received\<close>: the counters \<open>messages_written\<close> and \<open>errors\<close>, the cache,
  the storage table and the log are what they were after the first message.
\<close>

theorem duplicates_suppressed:
  assumes "derive lib w msg = Inr (d, dt, key)"
    and "key \<notin> set (seen_messages s)"
    and "\<forall>(w', m') \<in> set later. \<exists>d' dt'. derive lib w' m' = Inr (d', dt', key)"
  shows "let s1 = on_message lib w msg s in
           sensor_readings s1 =
             (if execute_raises w then sensor_readings s
              else sensor_readings s @ [reading_data dt d]) \<and>
           messages_written s1 = messages_written s + 1 \<and>
           key \<in> set (seen_messages s1) \<and>
           run lib later s1 = s1\<lparr>messages_received := messages_received s1 + int (length later)\<rparr>"
proof -
  have kept: "key \<in> set (seen_messages (on_message lib w msg s))"
    using assms(1,2) by (rule fresh_key_kept)
  have rest: "run lib later (on_message lib w msg s) =
      (on_message lib w msg s)\<lparr>messages_received :=
          messages_received (on_message lib w msg s) + int (length later)\<rparr>"
    using kept assms(3) by (rule run_duplicates)
  show ?thesis
    using kept rest fresh_rows [OF assms(1,2)] fresh_written [OF assms(1,2)]
    by (simp add: Let_def)
qed

theorem duplicates_suppressed_witness:
  "let s1 = on_message sample_lib storage_up msg_a initial_pipeline in
     sensor_readings s1 = [reading_data ''2024-05-01T10:00:00+00:00'' dict_a] \<and>
     messages_written s1 = 1 \<and>
     run sample_lib [(storage_up, msg_b), (storage_up, msg_a)] s1 =
       s1\<lparr>messages_received := messages_received s1 + 2\<rparr>"
proof -
  have h1: "derive sample_lib storage_up msg_a = Inr (dict_a, ''2024-05-01T10:00:00+00:00'', key_a)"
    by (rule derive_a)
  have h2: "key_a \<notin> set (seen_messages (initial_pipeline :: string pipeline))"
    by (simp add: initial_pipeline_def)
  have h3: "\<forall>(w', m') \<in> set [(storage_up, msg_b), (storage_up, msg_a)].
              \<exists>d' dt'. derive sample_lib w' m' = Inr (d', dt', key_a)"
    by (simp add: derive_a derive_b)
  show ?thesis
    using duplicates_suppressed [OF h1 h2 h3]
    by (simp add: Let_def storage_up_def initial_pipeline_def)
qed

lemma derive_c: "derive sample_lib w msg_c = Inr (dict_c, ''2024-05-01T10:00:00+00:00'', key_none)"
  by (simp add: derive_def parse_payload_def sample_lib_def sample_documents_def msg_c_def payload_a_def payload_b_def
      payload_c_def payload_d_def dict_c_def dict_get_def event_time_def replace_Z_def
      canonical_name_def py_or_def timestamp_second_def key_none_def)

lemma derive_d: "derive sample_lib w msg_d = Inr (dict_d, ''2024-05-01T10:00:00.250+00:00'', key_none)"
  by (simp add: derive_def parse_payload_def sample_lib_def sample_documents_def msg_d_def payload_a_def payload_b_def
      payload_c_def payload_d_def dict_d_def dict_get_def event_time_def replace_Z_def
      canonical_name_def py_or_def timestamp_second_def key_none_def)

section \<open>Storage failures\<close>

text \<open>
  Claim C1, evaluated where it fails. The first message of a fresh pipeline is parsed,
  is no duplicate, and its insert raises. \<^verbatim>\<open>insert_sensor_reading\<close> catches the
  exception itself, logs it and reconnects, so the callback goes on: it counts the
  reading as written and leaves \<open>errors\<close> at zero, while the storage table holds no
  row. The claim asks for \<open>errors = 1\<close> and \<open>messages_written = 0\<close> here.
\<close>

theorem failed_write_counted_as_written:
  "on_message sample_lib storage_down msg_a initial_pipeline =
     \<lparr>messages_received = 1, messages_written = 1, errors = 0,
      seen_messages = [key_a],
      submitted = [reading_data ''2024-05-01T10:00:00+00:00'' dict_a],
      sensor_readings = [],
      events = [LogInsertError, TimescaleConnect True]\<rparr>"
proof -
  have h1: "derive sample_lib storage_down msg_a = Inr (dict_a, ''2024-05-01T10:00:00+00:00'', key_a)"
    by (rule derive_a)
  have h2: "key_a \<notin> set (seen_messages (initial_pipeline :: string pipeline))"
    by (simp add: initial_pipeline_def)
  have "on_message sample_lib storage_down msg_a initial_pipeline =
     (let s1 = insert_sensor_reading storage_down (reading_data ''2024-05-01T10:00:00+00:00'' dict_a)
                 (initial_pipeline\<lparr>messages_received := messages_received (initial_pipeline :: string pipeline) + 1,
                    seen_messages :=
                      (if 1000 < length (seen_messages (initial_pipeline :: string pipeline) @ [key_a])
                       then drop 100 (seen_messages (initial_pipeline :: string pipeline) @ [key_a])
                       else seen_messages (initial_pipeline :: string pipeline) @ [key_a])\<rparr>);
          s2 = s1\<lparr>messages_written := messages_written s1 + 1\<rparr>
      in if messages_received s2 mod 10 = 0
         then s2\<lparr>events := events s2 @
                [LogStats (messages_received s2) (messages_written s2) (errors s2)]\<rparr>
         else s2)"
    using h1 h2 by (rule on_message_fresh)
  then show ?thesis
    by (simp add: Let_def insert_sensor_reading_def
        connect_timescale_db_def storage_down_def initial_pipeline_def)
qed

section \<open>The bounded cache\<close>

lemma on_message_seen_bound:
  assumes "length (seen_messages s) \<le> 1000"
  shows "length (seen_messages (on_message lib w msg s)) \<le> 1000"
proof (cases "derive lib w msg")
  case (Inl e)
  then show ?thesis using assms by (simp add: on_message_raises)
next
  case (Inr r)
  obtain d dt key where r: "r = (d, dt, key)" by (cases r)
  show ?thesis
  proof (cases "key \<in> set (seen_messages s)")
    case True
    then show ?thesis using Inr r assms by (simp add: on_message_duplicate)
  next
    case False
    then have "seen_messages (on_message lib w msg s) =
        (if 1000 < length (seen_messages s @ [key])
         then drop 100 (seen_messages s @ [key]) else seen_messages s @ [key])"
      using Inr r by (simp add: fresh_seen)
    then show ?thesis using assms by (auto split: if_splits)
  qed
qed

lemma run_seen_bound:
  "length (seen_messages s) \<le> 1000 \<Longrightarrow> length (seen_messages (run lib ds s)) \<le> 1000"
proof (induction ds arbitrary: s)
  case Nil
  then show ?case by simp
next
  case (Cons x ds)
  obtain w m where x: "x = (w, m)" by (cases x)
  have "length (seen_messages (on_message lib w m s)) \<le> 1000"
    using Cons.prems by (rule on_message_seen_bound)
  then show ?case using x Cons.IH by simp
qed

lemma full_cache_length: "length full_cache = 1000"
  by (simp add: full_cache_def)

text \<open>
  Claim C3. In every state, an insertion that takes the cache above 1000 keys is
  followed by the removal of exactly the 100 keys inserted earliest: the cache becomes
  the old keys and the new one, in insertion order, without the first 100. A cache that
  held at most 1000 keys before holds at most 1000 after, and in every run of the
  callback from the empty cache the size stays at or below 1000.
\<close>

theorem eviction_batch:
  assumes "derive lib w msg = Inr (d, dt, key)"
    and "key \<notin> set (seen_messages s)"
    and "1000 < length (seen_messages s @ [key])"
  shows "seen_messages (on_message lib w msg s) = drop 100 (seen_messages s @ [key]) \<and>
         length (seen_messages (on_message lib w msg s)) + 100 = length (seen_messages s) + 1 \<and>
         (length (seen_messages s) \<le> 1000 \<longrightarrow>
            length (seen_messages (on_message lib w msg s)) \<le> 1000) \<and>
         (\<forall>ds. length (seen_messages (run lib ds initial_pipeline)) \<le> 1000)"
proof -
  have a: "seen_messages (on_message lib w msg s) = drop 100 (seen_messages s @ [key])"
    using assms by (simp add: fresh_seen)
  have "length (drop 100 (seen_messages s @ [key])) = length (seen_messages s @ [key]) - 100"
    by (rule length_drop)
  then have b: "length (seen_messages (on_message lib w msg s)) + 100 = length (seen_messages s) + 1"
    using assms(3) a by auto
  have c: "\<forall>ds. length (seen_messages (run lib ds initial_pipeline)) \<le> 1000"
    by (simp add: run_seen_bound initial_pipeline_def)
  have d: "length (seen_messages s) \<le> 1000 \<longrightarrow>
            length (seen_messages (on_message lib w msg s)) \<le> 1000"
    using b by arith
  show ?thesis using a b c d by blast
qed

theorem eviction_batch_witness:
  "seen_messages (on_message sample_lib storage_up msg_a full_pipeline) =
     map numbered_key [100..<1000] @ [key_a] \<and>
   length (seen_messages (on_message sample_lib storage_up msg_a full_pipeline)) = 901"
proof -
  have h1: "derive sample_lib storage_up msg_a = Inr (dict_a, ''2024-05-01T10:00:00+00:00'', key_a)"
    by (rule derive_a)
  have h2: "key_a \<notin> set (seen_messages full_pipeline)"
    by (auto simp add: full_pipeline_def full_cache_def numbered_key_def key_a_def)
  have h3: "1000 < length (seen_messages full_pipeline @ [key_a])"
    by (simp add: full_pipeline_def full_cache_length)
  have "drop 100 (seen_messages full_pipeline @ [key_a]) = map numbered_key [100..<1000] @ [key_a]"
    by (simp add: full_pipeline_def full_cache_def drop_map)
  then show ?thesis
    using eviction_batch [OF h1 h2 h3]
    by (simp add: full_pipeline_def full_cache_length)
qed

section \<open>Field defaults\<close>

text \<open>
  Claim C7. For a parsed message that is no duplicate, the reading handed to
  \<^verbatim>\<open>insert_sensor_reading\<close> has the 18 columns of the storage table, each with the
  value of the payload's field when the payload has it. An absent field gives
  \<^verbatim>\<open>"unknown"\<close> for the object type, \<^verbatim>\<open>0\<close> for the device id and the object
  instance, \<^verbatim>\<open>"good"\<close> for the quality, and the absent value for every other column;
  the name is \<^verbatim>\<open>haystackName\<close>, or \<^verbatim>\<open>haystack_name\<close> when the former is absent or
  false in Python, and the time is the event time. When the insert does not raise, this
  reading is the row added to the storage.
\<close>

theorem reading_fields:
  assumes "derive lib w msg = Inr (d, dt, key)"
    and "key \<notin> set (seen_messages s)"
  shows "let s' = on_message lib w msg s;
             field = (\<lambda>k. case map_of d k of None \<Rightarrow> JNull | Some v \<Rightarrow> v);
             r = [(''time'', Datetime dt),
                  (''site_id'', Json (field ''siteId'')),
                  (''equipment_type'', Json (field ''equipmentType'')),
                  (''equipment_id'', Json (field ''equipmentId'')),
                  (''device_id'', Json (case map_of d ''deviceId'' of None \<Rightarrow> JInt 0 | Some v \<Rightarrow> v)),
                  (''device_name'', Json (field ''deviceName'')),
                  (''device_ip'', Json (field ''deviceIp'')),
                  (''object_type'',
                     Json (case map_of d ''objectType'' of None \<Rightarrow> JStr ''unknown'' | Some v \<Rightarrow> v)),
                  (''object_instance'',
                     Json (case map_of d ''objectInstance'' of None \<Rightarrow> JInt 0 | Some v \<Rightarrow> v)),
                  (''point_id'', Json (field ''pointId'')),
                  (''point_name'', Json (field ''pointName'')),
                  (''haystack_name'',
                     Json (if truthy (field ''haystackName'') then field ''haystackName''
                           else field ''haystack_name'')),
                  (''dis'', Json (field ''dis'')),
                  (''value'', Json (field ''value'')),
                  (''units'', Json (field ''units'')),
                  (''quality'',
                     Json (case map_of d ''quality'' of None \<Rightarrow> JStr ''good'' | Some v \<Rightarrow> v)),
                  (''poll_duration'', Json (field ''pollDuration'')),
                  (''poll_cycle'', Json (field ''pollCycle''))]
         in submitted s' = submitted s @ [r] \<and>
            (\<not> execute_raises w \<longrightarrow> sensor_readings s' = sensor_readings s @ [r])"
  using assms
  by (simp add: fresh_rows fresh_submitted Let_def reading_data_def dict_get_default_def
      dict_get_def canonical_name_def py_or_def)

theorem reading_fields_witness:
  "submitted (on_message instant_lib clock_up msg_e initial_pipeline) =
     [[(''time'', Datetime 1714557600),
       (''site_id'', Json JNull), (''equipment_type'', Json JNull), (''equipment_id'', Json JNull),
       (''device_id'', Json (JInt 0)), (''device_name'', Json JNull), (''device_ip'', Json JNull),
       (''object_type'', Json (JStr ''unknown'')), (''object_instance'', Json (JInt 0)),
       (''point_id'', Json JNull), (''point_name'', Json JNull),
       (''haystack_name'', Json (JStr ''ahu1.temp'')), (''dis'', Json JNull),
       (''value'', Json (JFloat (43 / 2))), (''units'', Json JNull),
       (''quality'', Json (JStr ''good'')),
       (''poll_duration'', Json JNull), (''poll_cycle'', Json JNull)]] \<and>
   sensor_readings (on_message instant_lib clock_up msg_e initial_pipeline) =
     submitted (on_message instant_lib clock_up msg_e initial_pipeline)"
proof -
  have h1: "derive instant_lib clock_up msg_e =
      Inr (dict_e, 1714557600, (HStr ''ahu1.temp'', ''2024-05-01T10:00:00''))"
    by (rule derive_e)
  have h2: "(HStr ''ahu1.temp'', ''2024-05-01T10:00:00'') \<notin>
      set (seen_messages (initial_pipeline :: int pipeline))"
    by (simp add: initial_pipeline_def)
  have i: "submitted (initial_pipeline :: int pipeline) = []"
    "sensor_readings (initial_pipeline :: int pipeline) = []"
    by (simp_all add: initial_pipeline_def)
  have u: "\<not> execute_raises clock_up" by (simp add: clock_up_def)
  show ?thesis
    using reading_fields [OF h1 h2] u
    by (simp add: Let_def i dict_e_def)
qed

section \<open>The progress line\<close>

text \<open>When lines 211 to 224 pass without an exception.\<close>

lemma derive_returns_iff:
  "(\<exists>r. derive lib w msg = Inr r) \<longleftrightarrow>
   (\<exists>d. parse_payload lib (payload msg) = Inr d \<and>
        (\<not> truthy (dict_get d ''timestamp'') \<or>
         (\<exists>t. dict_get d ''timestamp'' = JStr t \<and> fromisoformat lib (replace_Z t) \<noteq> None)) \<and>
        (\<exists>h. py_hashable (canonical_name d) = Inr h))"
  by (auto simp add: derive_def event_time_def Let_def
      split: sum.splits option.splits json.splits if_splits)

lemma parse_payload_returns_iff:
  "parse_payload lib bytes = Inr d \<longleftrightarrow>
   (\<exists>txt. decode_utf8 lib bytes = Some txt \<and> json_loads lib txt = Inr (JObj d))"
  by (auto simp add: parse_payload_def split: sum.splits option.splits json.splits)

text \<open>
  Claim C8 fails as stated. With nine messages received, the tenth one is malformed:
  the counter reaches 10 and the only line logged is the parse error. Likewise when
  the tenth one is a duplicate: the counter reaches 10 and nothing is logged.
\<close>

theorem progress_line_skipped:
  "messages_received (on_message sample_lib storage_up msg_bad nine_received) = 10 \<and>
   events (on_message sample_lib storage_up msg_bad nine_received) = [LogInvalidJson] \<and>
   messages_received (on_message sample_lib storage_up msg_a nine_received) = 10 \<and>
   events (on_message sample_lib storage_up msg_a nine_received) = []"
proof -
  have a: "on_message sample_lib storage_up msg_bad nine_received =
      nine_received\<lparr>messages_received := messages_received nine_received + 1,
        errors := errors nine_received + 1,
        events := events nine_received @
          [if JSONDecodeError = JSONDecodeError then LogInvalidJson
           else LogProcessingError JSONDecodeError]\<rparr>"
    using derive_bad by (rule on_message_raises)
  have k: "key_a \<in> set (seen_messages nine_received)"
    by (simp add: nine_received_def)
  have b: "on_message sample_lib storage_up msg_a nine_received =
      nine_received\<lparr>messages_received := messages_received nine_received + 1\<rparr>"
    using derive_a k by (rule on_message_duplicate)
  show ?thesis
    unfolding a b by (simp add: nine_received_def)
qed

text \<open>
  Claim C8 as amended. When the receipt of a message makes \<open>messages_received\<close> a
  multiple of 10, the progress line with the three counters is logged exactly when the
  message passes lines 211 to 224 without an exception and its key is not in the
  cache; the line then comes after the insert has been attempted. That is: the payload
  decodes and parses to a JSON object, its timestamp is absent, false in Python or a
  string that \<^verbatim>\<open>fromisoformat\<close> accepts, and its canonical name is hashable. A message
  that raises on the way logs only its error line (the invalid-JSON line for a
  \<^verbatim>\<open>JSONDecodeError\<close>, the general line for every other exception), and a duplicate
  logs nothing.
\<close>

theorem progress_line_after_write:
  assumes "(messages_received s + 1) mod 10 = 0"
  shows "logged s (on_message lib w msg s) =
     (case derive lib w msg of
        Inl e \<Rightarrow> [if e = JSONDecodeError then LogInvalidJson else LogProcessingError e]
      | Inr (d, dt, key) \<Rightarrow>
          if key \<in> set (seen_messages s) then []
          else (if execute_raises w then [LogInsertError, TimescaleConnect (reconnect_ok w)] else [])
               @ [LogStats (messages_received s + 1) (messages_written s + 1) (errors s)])"
proof (cases "derive lib w msg")
  case (Inl e)
  then show ?thesis by (simp add: on_message_raises logged_def)
next
  case (Inr r)
  obtain d dt key where r: "r = (d, dt, key)" by (cases r)
  show ?thesis
  proof (cases "key \<in> set (seen_messages s)")
    case True
    then show ?thesis using Inr r by (simp add: on_message_duplicate logged_def)
  next
    case False
    then show ?thesis using Inr r assms by (simp add: fresh_events logged_def)
  qed
qed

theorem progress_line_after_write_witness:
  "logged (nine_received\<lparr>seen_messages := []\<rparr>)
     (on_message sample_lib storage_up msg_a (nine_received\<lparr>seen_messages := []\<rparr>)) =
   [LogStats 10 10 0]"
proof -
  have h: "(messages_received (nine_received\<lparr>seen_messages := []\<rparr>) + 1) mod 10 = 0"
    by (simp add: nine_received_def)
  show ?thesis
    using progress_line_after_write [OF h, of sample_lib storage_up msg_a]
    by (simp add: derive_a nine_received_def storage_up_def)
qed

section \<open>A failed write and its key\<close>

text \<open>
  Claim C9. The key enters the cache before the insert is attempted. So when the
  insert of a message with a new key raises, the key is in the cache afterwards although
  no row was stored, and every later message that derives the same key is dropped as a
  duplicate: the storage table stays as it was before the failed reading, nothing more
  is counted as written, and the cache is unchanged.
\<close>

theorem failed_write_blocks_duplicates:
  assumes "derive lib w msg = Inr (d, dt, key)"
    and "key \<notin> set (seen_messages s)"
    and "execute_raises w"
    and "\<forall>(w', m') \<in> set later. \<exists>d' dt'. derive lib w' m' = Inr (d', dt', key)"
  shows "let s1 = on_message lib w msg s in
           key \<in> set (seen_messages s1) \<and>
           sensor_readings s1 = sensor_readings s \<and>
           sensor_readings (run lib later s1) = sensor_readings s \<and>
           messages_written (run lib later s1) = messages_written s1 \<and>
           seen_messages (run lib later s1) = seen_messages s1"
proof -
  have kept: "key \<in> set (seen_messages (on_message lib w msg s))"
    using assms(1,2) by (rule fresh_key_kept)
  have rows: "sensor_readings (on_message lib w msg s) = sensor_readings s"
    using assms(3) by (simp add: fresh_rows [OF assms(1,2)])
  have rest: "run lib later (on_message lib w msg s) =
      (on_message lib w msg s)\<lparr>messages_received :=
          messages_received (on_message lib w msg s) + int (length later)\<rparr>"
    using kept assms(4) by (rule run_duplicates)
  show ?thesis
    using kept rows by (simp add: Let_def rest)
qed

theorem failed_write_blocks_duplicates_witness:
  "let s1 = on_message sample_lib storage_down msg_a initial_pipeline in
     key_a \<in> set (seen_messages s1) \<and>
     sensor_readings s1 = [] \<and>
     sensor_readings (run sample_lib [(storage_up, msg_a), (storage_up, msg_b)] s1) = [] \<and>
     messages_written (run sample_lib [(storage_up, msg_a), (storage_up, msg_b)] s1) =
       messages_written s1"
proof -
  have h1: "derive sample_lib storage_down msg_a = Inr (dict_a, ''2024-05-01T10:00:00+00:00'', key_a)"
    by (rule derive_a)
  have h2: "key_a \<notin> set (seen_messages (initial_pipeline :: string pipeline))"
    by (simp add: initial_pipeline_def)
  have h3: "execute_raises storage_down"
    by (simp add: storage_down_def)
  have h4: "\<forall>(w', m') \<in> set [(storage_up, msg_a), (storage_up, msg_b)].
              \<exists>d' dt'. derive sample_lib w' m' = Inr (d', dt', key_a)"
    by (simp add: derive_a derive_b)
  have i: "sensor_readings (initial_pipeline :: string pipeline) = []"
    by (simp add: initial_pipeline_def)
  show ?thesis
    using failed_write_blocks_duplicates [OF h1 h2 h3 h4]
    by (simp add: Let_def i)
qed

section \<open>Messages without a canonical name\<close>

lemma derive_keyless:
  assumes "parse_payload lib (payload m) = Inr d"
    and "map_of d ''haystackName'' = None"
    and "map_of d ''haystack_name'' = None"
    and "event_time lib w (dict_get d ''timestamp'') = Inr dt"
  shows "derive lib w m = Inr (d, dt, (HNone, timestamp_second lib (dict_get d ''timestamp'') dt))"
  using assms
  by (simp add: derive_def canonical_name_def py_or_def dict_get_def)

lemma parse_c: "parse_payload sample_lib (payload msg_c) = Inr dict_c"
  by (simp add: parse_payload_def sample_lib_def sample_documents_def msg_c_def payload_a_def payload_b_def
      payload_c_def payload_d_def)

lemma parse_d: "parse_payload sample_lib (payload msg_d) = Inr dict_d"
  by (simp add: parse_payload_def sample_lib_def sample_documents_def msg_d_def payload_a_def payload_b_def
      payload_c_def payload_d_def)

lemma time_c: "event_time sample_lib w (dict_get dict_c ''timestamp'') = Inr ''2024-05-01T10:00:00+00:00''"
  by (simp add: event_time_def dict_get_def dict_c_def sample_lib_def replace_Z_def)

lemma time_d: "event_time sample_lib w (dict_get dict_d ''timestamp'') = Inr ''2024-05-01T10:00:00.250+00:00''"
  by (simp add: event_time_def dict_get_def dict_d_def sample_lib_def replace_Z_def)

lemma second_c:
  "timestamp_second sample_lib (dict_get dict_c ''timestamp'') dt = ''2024-05-01T10:00:00''"
  by (simp add: timestamp_second_def dict_get_def dict_c_def)

lemma second_d:
  "timestamp_second sample_lib (dict_get dict_d ''timestamp'') dt = ''2024-05-01T10:00:00''"
  by (simp add: timestamp_second_def dict_get_def dict_d_def)

text \<open>
  Claim C10 fails as stated. Two messages without a name field carry the same
  instant in two renderings, with the offsets \<^verbatim>\<open>+00:00\<close> and \<^verbatim>\<open>+02:00\<close>. Their
  event times are equal, but the texts of their timestamps differ within the first 19
  characters, so the keys differ: both messages are stored and counted as written.
\<close>

theorem keyless_same_second_both_written:
  "parse_payload instant_lib (payload msg_g) = Inr dict_g \<and>
   parse_payload instant_lib (payload msg_h) = Inr dict_h \<and>
   map_of dict_g ''haystackName'' = None \<and> map_of dict_g ''haystack_name'' = None \<and>
   map_of dict_h ''haystackName'' = None \<and> map_of dict_h ''haystack_name'' = None \<and>
   event_time instant_lib clock_up (dict_get dict_g ''timestamp'') = Inr 1714557600 \<and>
   event_time instant_lib clock_up (dict_get dict_h ''timestamp'') = Inr 1714557600 \<and>
   sensor_readings (run instant_lib [(clock_up, msg_g), (clock_up, msg_h)] initial_pipeline) =
     [reading_data 1714557600 dict_g, reading_data 1714557600 dict_h] \<and>
   messages_written (run instant_lib [(clock_up, msg_g), (clock_up, msg_h)] initial_pipeline) = 2"
proof -
  have a: "parse_payload instant_lib (payload msg_g) = Inr dict_g"
    by (simp add: parse_payload_def instant_lib_def instant_documents_def msg_g_def
        payload_e_def payload_f_def payload_g_def payload_h_def)
  have b: "parse_payload instant_lib (payload msg_h) = Inr dict_h"
    by (simp add: parse_payload_def instant_lib_def instant_documents_def msg_h_def
        payload_e_def payload_f_def payload_g_def payload_h_def)
  have c: "map_of dict_g ''haystackName'' = None \<and> map_of dict_g ''haystack_name'' = None \<and>
           map_of dict_h ''haystackName'' = None \<and> map_of dict_h ''haystack_name'' = None"
    by (simp add: dict_g_def dict_h_def)
  have d: "event_time instant_lib clock_up (dict_get dict_g ''timestamp'') = Inr 1714557600"
    by (simp add: event_time_def dict_get_def dict_g_def instant_lib_def replace_Z_def)
  have e: "event_time instant_lib clock_up (dict_get dict_h ''timestamp'') = Inr 1714557600"
    by (simp add: event_time_def dict_get_def dict_h_def instant_lib_def replace_Z_def)
  have n: "(HNone, ''2024-05-01T10:00:00'') \<noteq> (HNone, ''2024-05-01T12:00:00'')"
    by simp
  have u: "\<not> execute_raises clock_up" by (simp add: clock_up_def)
  show ?thesis
    using a b c d e two_fresh_rows [OF derive_g derive_h n u u] by simp
qed

text \<open>
  Claim C10 as amended. Two parsed messages that have neither \<^verbatim>\<open>haystackName\<close> nor
  \<^verbatim>\<open>haystack_name\<close>, whatever else they carry, get the absent value as the name
  of their key. When the 19 characters of timestamp text of their keys are equal (the
  first 19 characters of the timestamp string when it has that many, otherwise of
  \<^verbatim>\<open>str\<close> of the event time) and that key is not yet in the cache, the first message
  reaches the storage insert and is counted as written, and the second only adds one to
  \<open>messages_received\<close>.
\<close>

theorem keyless_messages_collide:
  assumes "parse_payload lib (payload m1) = Inr d1"
    and "parse_payload lib (payload m2) = Inr d2"
    and "map_of d1 ''haystackName'' = None" and "map_of d1 ''haystack_name'' = None"
    and "map_of d2 ''haystackName'' = None" and "map_of d2 ''haystack_name'' = None"
    and "event_time lib w1 (dict_get d1 ''timestamp'') = Inr dt1"
    and "event_time lib w2 (dict_get d2 ''timestamp'') = Inr dt2"
    and "timestamp_second lib (dict_get d1 ''timestamp'') dt1 =
         timestamp_second lib (dict_get d2 ''timestamp'') dt2"
    and "(HNone, timestamp_second lib (dict_get d1 ''timestamp'') dt1) \<notin> set (seen_messages s)"
  shows "let s1 = on_message lib w1 m1 s in
           sensor_readings s1 =
             (if execute_raises w1 then sensor_readings s
              else sensor_readings s @ [reading_data dt1 d1]) \<and>
           messages_written s1 = messages_written s + 1 \<and>
           on_message lib w2 m2 s1 = s1\<lparr>messages_received := messages_received s1 + 1\<rparr>"
proof -
  let ?key = "(HNone, timestamp_second lib (dict_get d1 ''timestamp'') dt1)"
  have k1: "derive lib w1 m1 = Inr (d1, dt1, ?key)"
    using assms(1,3,4,7) by (rule derive_keyless)
  have "derive lib w2 m2 = Inr (d2, dt2, (HNone, timestamp_second lib (dict_get d2 ''timestamp'') dt2))"
    using assms(2,5,6,8) by (rule derive_keyless)
  then have k2: "derive lib w2 m2 = Inr (d2, dt2, ?key)"
    using assms(9) by simp
  have kept: "?key \<in> set (seen_messages (on_message lib w1 m1 s))"
    using k1 assms(10) by (rule fresh_key_kept)
  have dup: "on_message lib w2 m2 (on_message lib w1 m1 s) =
      (on_message lib w1 m1 s)\<lparr>messages_received := messages_received (on_message lib w1 m1 s) + 1\<rparr>"
    using k2 kept by (rule on_message_duplicate)
  show ?thesis
    using dup fresh_rows [OF k1 assms(10)] fresh_written [OF k1 assms(10)]
    by (simp add: Let_def)
qed

theorem keyless_messages_collide_witness:
  "let s1 = on_message sample_lib storage_up msg_c initial_pipeline in
     sensor_readings s1 = [reading_data ''2024-05-01T10:00:00+00:00'' dict_c] \<and>
     messages_written s1 = 1 \<and>
     on_message sample_lib storage_up msg_d s1 = s1\<lparr>messages_received := messages_received s1 + 1\<rparr>"
proof -
  have n1: "map_of dict_c ''haystackName'' = None" by (simp add: dict_c_def)
  have n2: "map_of dict_c ''haystack_name'' = None" by (simp add: dict_c_def)
  have n3: "map_of dict_d ''haystackName'' = None" by (simp add: dict_d_def)
  have n4: "map_of dict_d ''haystack_name'' = None" by (simp add: dict_d_def)
  have eq: "timestamp_second sample_lib (dict_get dict_c ''timestamp'') ''2024-05-01T10:00:00+00:00'' =
            timestamp_second sample_lib (dict_get dict_d ''timestamp'') ''2024-05-01T10:00:00.250+00:00''"
    by (simp add: second_c second_d)
  have fresh: "(HNone, timestamp_second sample_lib (dict_get dict_c ''timestamp'') ''2024-05-01T10:00:00+00:00'')
      \<notin> set (seen_messages (initial_pipeline :: string pipeline))"
    by (simp add: initial_pipeline_def)
  show ?thesis
    using keyless_messages_collide [OF parse_c parse_d n1 n2 n3 n4 time_c time_d eq fresh,
        of storage_up storage_up]
    by (simp add: Let_def storage_up_def initial_pipeline_def)
qed

section \<open>What the session callbacks and the connect leave behind\<close>

























section \<open>Reconfiguration\<close>







section \<open>Connecting without a target\<close>

text \<open>
  Claim C5. When the active configuration is disabled or has no broker address,
  \<^verbatim>\<open>connect_mqtt\<close> returns \<^verbatim>\<open>False\<close> at once: the client object, the connected
  flag and the configuration are unchanged, and the only thing emitted is one log line,
  so no status is written to the configuration database and no transport call is
  made.
\<close>

theorem connect_without_target:
  assumes "\<not> enabled (mqtt_config s) \<or> broker (mqtt_config s) = []"
  shows "let (connected, s') = connect_mqtt e s in
           \<not> connected \<and>
           mqtt_client s' = mqtt_client s \<and>
           mqtt_connected s' = mqtt_connected s \<and>
           mqtt_config s' = mqtt_config s \<and>
           length (emitted s s') = 1 \<and> list_all is_log (emitted s s')"
  using assms by (auto simp add: connect_mqtt_def emit_def emitted_def)

theorem connect_without_target_witness:
  "\<not> fst (connect_mqtt (calm NoRow) initial_conn) \<and>
   mqtt_client (snd (connect_mqtt (calm NoRow) initial_conn)) = None \<and>
   mqtt_connected (snd (connect_mqtt (calm NoRow) initial_conn)) = False \<and>
   list_all is_log (emitted initial_conn (snd (connect_mqtt (calm NoRow) initial_conn)))"
proof -
  have h: "\<not> enabled (mqtt_config initial_conn) \<or> broker (mqtt_config initial_conn) = []"
    by (simp add: initial_conn_def initial_mqtt_config_def)
  have i: "mqtt_client initial_conn = None" "mqtt_connected initial_conn = False"
    by (simp_all add: initial_conn_def)
  show ?thesis
    using connect_without_target [OF h, of "calm NoRow"] i
    by (simp add: split_beta)
qed

section \<open>Defaults of the loaded configuration\<close>

text \<open>
  Claim C6, evaluated where it fails. The stored row has \<^verbatim>\<open>qos = 0\<close>, which is not
  null. Line 119 reads \<^verbatim>\<open>result[9] or 1\<close>, and \<^verbatim>\<open>0\<close> is false in Python, so the
  active configuration gets \<^verbatim>\<open>qos = 1\<close>. Line 120 tests \<^verbatim>\<open>enabled\<close> against
  \<^verbatim>\<open>None\<close> instead and keeps a stored \<^verbatim>\<open>False\<close>.
\<close>

theorem stored_qos_zero_loaded_as_one:
  "col_qos row_qos0 = Some 0 \<and>
   qos (mqtt_config (snd (load_mqtt_config (calm (Row row_qos0)) initial_conn))) = 1"
  by (simp add: load_mqtt_config_def calm_def row_qos0_def row_broker1_def config_of_row_def
      or_default_def int_truth_def emit_def)

end
